theory Spec2Isabelle
  imports Complex_Main "HOL-Library.Multiset"
begin

section \<open>Data model (definitions.ts)\<close>

text \<open>
  The string-literal unions of the source are datatypes with one constructor per
  literal; interfaces are records.
\<close>

datatype CardRank = Nine | Ten | Jack | Queen | King | Ace

datatype CardSuit = Clubs | Diamonds | Hearts | Spades

record Card =
  rank :: CardRank
  suit :: CardSuit

datatype PlayerPosition = P1 | P2 | P3 | P4

datatype BidChoice = Pass | Bid3 | Bid4 | Bid5 | Bid6 | PartnersBestCard | GoingAlone

text \<open>\<^verbatim>\<open>type Trump = CardSuit | "High" | "Low"\<close>\<close>

datatype Trump = Suit CardSuit | High | Low

record LobbyPlayer =
  name :: string
  position :: PlayerPosition

record Player = LobbyPlayer +
  hand :: "Card list"

text \<open>
  \<^verbatim>\<open>players: [Player, Player]\<close> and \<^verbatim>\<open>teams: [Team, Team]\<close> are arrays at run time (the
  legality checker tests \<^verbatim>\<open>teams.length\<close>), so they are lists here. \<^verbatim>\<open>points\<close> only
  ever holds whole numbers.
\<close>

record Team =
  players :: "Player list"
  points :: int

record Bid =
  playerPosition :: PlayerPosition
  choice :: BidChoice

record UpCard =
  owner :: PlayerPosition
  card' :: Card

text \<open>
  The tagged union \<^verbatim>\<open>Phase\<close>: one constructor per value of the \<^verbatim>\<open>name\<close> tag, the
  fields of \<^verbatim>\<open>BasePhase\<close> first. The optional \<^verbatim>\<open>playerSittingOut\<close> is an option.
\<close>

datatype Phase =
  Bidding (teams: "Team list") (dealer: PlayerPosition)
    (bidPosition: PlayerPosition) (bids: "Bid list")
| PickingTrump (teams: "Team list") (dealer: PlayerPosition) (winningBid: Bid)
| PickingPartnersBestCard (teams: "Team list") (dealer: PlayerPosition)
    (trump: Trump) (winningBid: Bid) (partner: PlayerPosition)
| TrickTaking (teams: "Team list") (dealer: PlayerPosition)
    (trump: Trump) (winningBid: Bid) (cardPosition: PlayerPosition)
    (currentTrick: "UpCard list") (finishedTricks: "UpCard list list")
    (playerSittingOut: "PlayerPosition option")

fun phaseName :: "Phase \<Rightarrow> string" where
  "phaseName (Bidding _ _ _ _) = ''Bidding''"
| "phaseName (PickingTrump _ _ _) = ''Picking Trump''"
| "phaseName (PickingPartnersBestCard _ _ _ _ _) = ''Picking Partner's Best Card''"
| "phaseName (TrickTaking _ _ _ _ _ _ _ _) = ''Trick-Taking''"

record GameOverPhase =
  winners :: Team
  losers :: Team

text \<open>\<^verbatim>\<open>Phase | GameOverPhase\<close>, the result type of \<^verbatim>\<open>chooseOption\<close>.\<close>

datatype PhaseOrGameOver = InPlay Phase | GameOver GameOverPhase

section \<open>Bid hierarchy (utils.ts)\<close>

definition bidHierarchy :: "BidChoice list" where
  "bidHierarchy = [GoingAlone, PartnersBestCard, Bid6, Bid5, Bid4, Bid3, Pass]"

text \<open>
  \<^verbatim>\<open>bidHierarchy.filter((element) => element === bidA || element === bidB)[0]\<close>:
  index 0 of an empty array is \<^verbatim>\<open>undefined\<close> in JavaScript, which is \<open>None\<close> here.
\<close>

definition getHigherBid :: "BidChoice \<Rightarrow> BidChoice \<Rightarrow> BidChoice option" where
  "getHigherBid bidA bidB =
     (case filter (\<lambda>element. element = bidA \<or> element = bidB) bidHierarchy of
        [] \<Rightarrow> None
      | first # _ \<Rightarrow> Some first)"

definition isFirstBidGreaterThanSecond :: "BidChoice \<Rightarrow> BidChoice \<Rightarrow> bool" where
  "isFirstBidGreaterThanSecond first second = (getHigherBid first second = Some first)"

definition getHigherBids :: "BidChoice \<Rightarrow> BidChoice list" where
  "getHigherBids bid = filter (\<lambda>element. isFirstBidGreaterThanSecond element bid) bidHierarchy"

text \<open>
  The seven-element order of the specification, \<open>Pass < 3 < 4 < 5 < 6 < Partner's Best
  Card < Going Alone\<close>, as a numeric priority.
\<close>

fun bidPriority :: "BidChoice \<Rightarrow> nat" where
  "bidPriority Pass = 0"
| "bidPriority Bid3 = 1"
| "bidPriority Bid4 = 2"
| "bidPriority Bid5 = 3"
| "bidPriority Bid6 = 4"
| "bidPriority PartnersBestCard = 5"
| "bidPriority GoingAlone = 6"

section \<open>Trump ranking (utils.ts)\<close>

fun getSameColorSuit :: "CardSuit \<Rightarrow> CardSuit" where
  "getSameColorSuit Clubs = Spades"
| "getSameColorSuit Spades = Clubs"
| "getSameColorSuit Diamonds = Hearts"
| "getSameColorSuit Hearts = Diamonds"

definition getCardsOfSuitWhenTrumpOrderedByHierarchyDesc :: "CardSuit \<Rightarrow> Trump \<Rightarrow> Card list" where
  "getCardsOfSuitWhenTrumpOrderedByHierarchyDesc suit' trump' =
     (if trump' = Low \<or> trump' = High then
        (let cards = [\<lparr>rank = Nine, suit = suit'\<rparr>,
                      \<lparr>rank = Ten, suit = suit'\<rparr>,
                      \<lparr>rank = Jack, suit = suit'\<rparr>,
                      \<lparr>rank = Queen, suit = suit'\<rparr>,
                      \<lparr>rank = King, suit = suit'\<rparr>,
                      \<lparr>rank = Ace, suit = suit'\<rparr>]
         in if trump' = Low then cards else rev cards)
      else
        (let leftBowerSuit = getSameColorSuit suit' in
         if Suit suit' = trump' then
           [\<lparr>rank = Jack, suit = suit'\<rparr>,
            \<lparr>rank = Jack, suit = leftBowerSuit\<rparr>,
            \<lparr>rank = Ace, suit = suit'\<rparr>,
            \<lparr>rank = King, suit = suit'\<rparr>,
            \<lparr>rank = Queen, suit = suit'\<rparr>,
            \<lparr>rank = Ten, suit = suit'\<rparr>,
            \<lparr>rank = Nine, suit = suit'\<rparr>]
         else if leftBowerSuit = suit' then
           [\<lparr>rank = Ace, suit = suit'\<rparr>,
            \<lparr>rank = King, suit = suit'\<rparr>,
            \<lparr>rank = Queen, suit = suit'\<rparr>,
            \<lparr>rank = Ten, suit = suit'\<rparr>,
            \<lparr>rank = Nine, suit = suit'\<rparr>]
         else
           [\<lparr>rank = Ace, suit = suit'\<rparr>,
            \<lparr>rank = King, suit = suit'\<rparr>,
            \<lparr>rank = Queen, suit = suit'\<rparr>,
            \<lparr>rank = Jack, suit = suit'\<rparr>,
            \<lparr>rank = Ten, suit = suit'\<rparr>,
            \<lparr>rank = Nine, suit = suit'\<rparr>]))"

definition getAllCards :: "Card list" where
  "getAllCards =
     [\<lparr>rank = Nine, suit = Clubs\<rparr>, \<lparr>rank = Ten, suit = Clubs\<rparr>,
      \<lparr>rank = Jack, suit = Clubs\<rparr>, \<lparr>rank = Queen, suit = Clubs\<rparr>,
      \<lparr>rank = King, suit = Clubs\<rparr>, \<lparr>rank = Ace, suit = Clubs\<rparr>,
      \<lparr>rank = Nine, suit = Diamonds\<rparr>, \<lparr>rank = Ten, suit = Diamonds\<rparr>,
      \<lparr>rank = Jack, suit = Diamonds\<rparr>, \<lparr>rank = Queen, suit = Diamonds\<rparr>,
      \<lparr>rank = King, suit = Diamonds\<rparr>, \<lparr>rank = Ace, suit = Diamonds\<rparr>,
      \<lparr>rank = Nine, suit = Hearts\<rparr>, \<lparr>rank = Ten, suit = Hearts\<rparr>,
      \<lparr>rank = Jack, suit = Hearts\<rparr>, \<lparr>rank = Queen, suit = Hearts\<rparr>,
      \<lparr>rank = King, suit = Hearts\<rparr>, \<lparr>rank = Ace, suit = Hearts\<rparr>,
      \<lparr>rank = Nine, suit = Spades\<rparr>, \<lparr>rank = Ten, suit = Spades\<rparr>,
      \<lparr>rank = Jack, suit = Spades\<rparr>, \<lparr>rank = Queen, suit = Spades\<rparr>,
      \<lparr>rank = King, suit = Spades\<rparr>, \<lparr>rank = Ace, suit = Spades\<rparr>]"

section \<open>Phase legality checker (index.ts)\<close>

text \<open>
  The local constants of \<^verbatim>\<open>determineIfPhaseIsLegal\<close>, each under its own name as a
  function of the phase. \<open>players'\<close> is the source's \<^verbatim>\<open>players\<close>; it is only read
  after the check that there are two teams.
\<close>

definition players' :: "Phase \<Rightarrow> Player list" where
  "players' phase = players (teams phase ! 0) @ players (teams phase ! 1)"

definition cardsInHandsOfPlayers :: "Phase \<Rightarrow> Card list" where
  "cardsInHandsOfPlayers phase =
     foldl (\<lambda>accumulator currentValue. accumulator @ hand currentValue) [] (players' phase)"

text \<open>\<^verbatim>\<open>[...new Set(xs)].length\<close> is the number of distinct elements of \<open>xs\<close>.\<close>

definition doesEachFinishedTrickHaveOnlyOneCardFromEachOwner :: "Phase \<Rightarrow> bool" where
  "doesEachFinishedTrickHaveOnlyOneCardFromEachOwner phase =
     (if phaseName phase = ''Trick-Taking''
      then list_all (\<lambda>trick. length (remdups (map owner trick)) = length trick)
             (finishedTricks phase)
           \<and> length (remdups (map owner (currentTrick phase))) = length (currentTrick phase)
      else True)"

definition cardsInPlay :: "Phase \<Rightarrow> Card list" where
  "cardsInPlay phase =
     (if phaseName phase = ''Trick-Taking''
      then concat (map (\<lambda>trick. map card' trick) (finishedTricks phase))
           @ map card' (currentTrick phase)
      else [])"

definition cards :: "Phase \<Rightarrow> Card list" where
  "cards phase = cardsInHandsOfPlayers phase @ cardsInPlay phase"

definition hasTwentyFourCards :: "Phase \<Rightarrow> bool" where
  "hasTwentyFourCards phase = (length (cards phase) = 24)"

text \<open>The two nested \<^verbatim>\<open>every\<close> loops, each over the elements with their indices.\<close>

definition isEveryCardUnique :: "Phase \<Rightarrow> bool" where
  "isEveryCardUnique phase =
     list_all (\<lambda>(firstIndex, firstCard).
       list_all (\<lambda>(secondIndex, secondCard).
         if firstIndex = secondIndex then True
         else (let areNotTheSame = rank firstCard \<noteq> rank secondCard
                                   \<or> suit firstCard \<noteq> suit secondCard
               in areNotTheSame))
         (enumerate 0 (cards phase)))
       (enumerate 0 (cards phase))"

definition determineIfPhaseIsLegal :: "Phase \<Rightarrow> bool \<times> string" where
  "determineIfPhaseIsLegal phase =
     (if phaseName phase = ''Trick-Taking''
         \<and> playerSittingOut phase \<noteq> None
         \<and> playerSittingOut phase = Some (cardPosition phase)
      then (False, ''The player sitting out shouldn't be able to play'')
      else if length (teams phase) \<noteq> 2
      then (False, ''Team lengths were not two'')
      else if phaseName phase \<noteq> ''Trick-Taking''
         \<and> phaseName phase \<noteq> ''Picking Partner's Best Card''
         \<and> \<not> list_all (\<lambda>player. length (hand player) = 6) (players' phase)
      then (False, ''Not all players have 6 cards in their hands each even though we aren't in the Trick-Taking Phase yet.'')
      else if \<not> doesEachFinishedTrickHaveOnlyOneCardFromEachOwner phase
      then (False, ''One of the finished tricks has more than one card from the same player.'')
      else if \<not> hasTwentyFourCards phase
      then (False, ''Game does not have 24 cards in play.'')
      else if \<not> isEveryCardUnique phase
      then (False, ''Not every card is unique'')
      else if length (remdups (map position (players' phase))) \<noteq> 4
      then (False, ''At least two of the players are sharing the same seat.'')
      else if \<not> list_all (\<lambda>team.
                  let positions = map position (players team)
                  in (P1 \<in> set positions \<and> P3 \<in> set positions)
                     \<or> (P2 \<in> set positions \<and> P4 \<in> set positions))
                (teams phase)
      then (False, ''Players of the same team are not sitting opposite each other.'')
      else if phaseName phase = ''Trick-Taking'' \<and> length (currentTrick phase) \<ge> 4
      then (False, ''The current trick cannot have 4 or more cards in it, if it did then it wouldn't be considered the current trick and should instead be one of the finished tricks.'')
      else (True, ''No issue detected''))"

section \<open>Options as run-time values\<close>

text \<open>
  \<^verbatim>\<open>type Option = BidChoice | Trump | Card\<close> is untagged: at run time an option is a
  string or an object, and \<^verbatim>\<open>isLegalOption\<close>, \<^verbatim>\<open>isBidChoice\<close>, \<^verbatim>\<open>isTrump\<close> and
  \<^verbatim>\<open>isCard\<close> inspect that value. A bid choice or a trump is the string of its literal.
  An object is the list of its own properties in insertion order, which is the order
  \<^verbatim>\<open>JSON.stringify\<close> writes them in (for property names that are not array indices,
  as \<^verbatim>\<open>rank\<close> and \<^verbatim>\<open>suit\<close>); the property values of a card are strings. Strings
  are ASCII.
\<close>

datatype OptionValue = Str string | Obj "(string \<times> string) list"

fun suitValue :: "CardSuit \<Rightarrow> string" where
  "suitValue Clubs = ''Clubs''"
| "suitValue Diamonds = ''Diamonds''"
| "suitValue Hearts = ''Hearts''"
| "suitValue Spades = ''Spades''"

fun rankValue :: "CardRank \<Rightarrow> string" where
  "rankValue Nine = ''9''"
| "rankValue Ten = ''10''"
| "rankValue Jack = ''Jack''"
| "rankValue Queen = ''Queen''"
| "rankValue King = ''King''"
| "rankValue Ace = ''Ace''"

text \<open>
  A card written as every card literal of the source is, \<^verbatim>\<open>{ rank: ..., suit: ... }\<close>:
  the property \<^verbatim>\<open>rank\<close> first.
\<close>

definition cardValue :: "Card \<Rightarrow> OptionValue" where
  "cardValue c = Obj [(''rank'', rankValue (rank c)), (''suit'', suitValue (suit c))]"

text \<open>Reading a property: \<^verbatim>\<open>undefined\<close> (\<open>None\<close>) when the value has none of that name.\<close>

fun property :: "OptionValue \<Rightarrow> string \<Rightarrow> string option" where
  "property (Str _) key = None"
| "property (Obj properties) key = map_of properties key"

definition isCard :: "OptionValue \<Rightarrow> bool" where
  "isCard a = (property a ''rank'' \<noteq> None \<and> property a ''suit'' \<noteq> None)"

definition isBidChoice :: "OptionValue \<Rightarrow> bool" where
  "isBidChoice a =
     (a \<in> set (map Str [''Pass'', ''3'', ''4'', ''5'', ''6'', ''Partner's Best Card'', ''Going Alone'']))"

definition isTrump :: "OptionValue \<Rightarrow> bool" where
  "isTrump a =
     (a \<in> set (map Str [''Clubs'', ''Diamonds'', ''Hearts'', ''High'', ''Low'', ''Spades'']))"

subsection \<open>\<^verbatim>\<open>JSON.stringify\<close> on these values\<close>

text \<open>
  The built-in, as ECMAScript defines it for strings and for objects with string
  properties: a string is quoted, with the quotation mark, the backslash and the control
  characters escaped; an object is its properties, in insertion order, between braces.
\<close>

definition hexDigit :: "nat \<Rightarrow> char" where
  "hexDigit n = ''0123456789abcdef'' ! n"

definition escapeJSONChar :: "char \<Rightarrow> string" where
  "escapeJSONChar c =
     (if c = CHR 0x08 then [CHR 0x5C, CHR ''b'']
      else if c = CHR 0x09 then [CHR 0x5C, CHR ''t'']
      else if c = CHR 0x0A then [CHR 0x5C, CHR ''n'']
      else if c = CHR 0x0C then [CHR 0x5C, CHR ''f'']
      else if c = CHR 0x0D then [CHR 0x5C, CHR ''r'']
      else if c = CHR 0x22 then [CHR 0x5C, CHR 0x22]
      else if c = CHR 0x5C then [CHR 0x5C, CHR 0x5C]
      else if (of_char c :: nat) < 32
      then [CHR 0x5C, CHR ''u'', CHR ''0'', CHR ''0'',
            hexDigit (of_char c div 16), hexDigit (of_char c mod 16)]
      else [c])"

definition quoteJSONString :: "string \<Rightarrow> string" where
  "quoteJSONString s = [CHR 0x22] @ concat (map escapeJSONChar s) @ [CHR 0x22]"

fun joinWithComma :: "string list \<Rightarrow> string" where
  "joinWithComma [] = []"
| "joinWithComma [x] = x"
| "joinWithComma (x # y # rest) = x @ '','' @ joinWithComma (y # rest)"

definition jsonMember :: "string \<times> string \<Rightarrow> string" where
  "jsonMember = (\<lambda>(key, v). quoteJSONString key @ '':'' @ quoteJSONString v)"

fun JSON_stringify :: "OptionValue \<Rightarrow> string" where
  "JSON_stringify (Str s) = quoteJSONString s"
| "JSON_stringify (Obj properties) = ''{'' @ joinWithComma (map jsonMember properties) @ ''}''"

text \<open>\<^verbatim>\<open>Object.keys\<close>: the names of the properties, in insertion order.\<close>

fun propertyNames :: "OptionValue \<Rightarrow> string list" where
  "propertyNames (Str _) = []"
| "propertyNames (Obj properties) = map fst properties"

text \<open>
  Equality by structural value, as the specification words it: two strings are equal
  when they are the same string, two objects when they have the same properties with the
  same values, in whatever order the properties were written.
\<close>

fun structurallyEqual :: "OptionValue \<Rightarrow> OptionValue \<Rightarrow> bool" where
  "structurallyEqual (Str a) (Str b) = (a = b)"
| "structurallyEqual (Obj a) (Obj b) =
     (list_all (\<lambda>(key, v). map_of b key = Some v) a
      \<and> list_all (\<lambda>(key, v). map_of a key = Some v) b)"
| "structurallyEqual _ _ = False"

section \<open>Option enumerator and option applier (index.ts)\<close>

text \<open>
  The per-phase routines that \<^verbatim>\<open>index.ts\<close> imports from \<^verbatim>\<open>get_options_utils\<close> and
  \<^verbatim>\<open>choose_option_utils\<close> are taken as parameters, under their own names. The narrowed
  option they receive is the same run-time value.
\<close>

record Collaborators =
  getOptionsForBiddingPhase :: "Phase \<Rightarrow> PlayerPosition \<Rightarrow> OptionValue list"
  getOptionsForTrumpPickingPhase :: "Phase \<Rightarrow> PlayerPosition \<Rightarrow> OptionValue list"
  getOptionsForTrickTakingPhase :: "Phase \<Rightarrow> PlayerPosition \<Rightarrow> OptionValue list"
  getOptionsForPartnersBestCardPickingPhase :: "Phase \<Rightarrow> PlayerPosition \<Rightarrow> OptionValue list"
  chooseOptionForBiddingPhase :: "OptionValue \<Rightarrow> Phase \<Rightarrow> PlayerPosition \<Rightarrow> PhaseOrGameOver"
  chooseOptionForPickingTrumpPhase :: "OptionValue \<Rightarrow> Phase \<Rightarrow> PhaseOrGameOver"
  chooseOptionForPickingPartnersBestCardPhase ::
    "OptionValue \<Rightarrow> Phase \<Rightarrow> PlayerPosition \<Rightarrow> PhaseOrGameOver"
  chooseOptionForTrickTakingPhase :: "OptionValue \<Rightarrow> Phase \<Rightarrow> PlayerPosition \<Rightarrow> PhaseOrGameOver"

definition getOptions :: "Collaborators \<Rightarrow> Phase \<Rightarrow> PlayerPosition \<Rightarrow> OptionValue list" where
  "getOptions C phase currentPlayer =
     (if \<not> fst (determineIfPhaseIsLegal phase) then []
      else if phaseName phase = ''Bidding''
      then getOptionsForBiddingPhase C phase currentPlayer
      else if phaseName phase = ''Picking Trump''
      then getOptionsForTrumpPickingPhase C phase currentPlayer
      else if phaseName phase = ''Trick-Taking''
      then getOptionsForTrickTakingPhase C phase currentPlayer
      else if phaseName phase = ''Picking Partner's Best Card''
      then getOptionsForPartnersBestCardPickingPhase C phase currentPlayer
      else [])"

definition isLegalOption :: "Collaborators \<Rightarrow> OptionValue \<Rightarrow> Phase \<Rightarrow> PlayerPosition \<Rightarrow> bool" where
  "isLegalOption C option' phase currentPlayer =
     list_ex (\<lambda>o'. JSON_stringify o' = JSON_stringify option') (getOptions C phase currentPlayer)"

text \<open>
  \<^verbatim>\<open>!determineIfPhaseIsLegal(phase)\<close> negates the returned array itself, not its first
  element: an array is truthy whatever it holds, so the negation is false.
\<close>

definition notOfArray :: "bool \<times> string \<Rightarrow> bool" where
  "notOfArray array = False"

definition getPhase :: "Collaborators \<Rightarrow> OptionValue \<Rightarrow> Phase \<Rightarrow> PlayerPosition \<Rightarrow> PhaseOrGameOver" where
  "getPhase C option' phase currentPlayer =
     (if phaseName phase = ''Bidding'' \<and> isBidChoice option'
      then chooseOptionForBiddingPhase C option' phase currentPlayer
      else if phaseName phase = ''Picking Trump'' \<and> isTrump option'
      then chooseOptionForPickingTrumpPhase C option' phase
      else if phaseName phase = ''Picking Partner's Best Card'' \<and> isCard option'
      then chooseOptionForPickingPartnersBestCardPhase C option' phase currentPlayer
      else if phaseName phase = ''Trick-Taking'' \<and> isCard option'
      then chooseOptionForTrickTakingPhase C option' phase currentPlayer
      else InPlay phase)"

text \<open>
  \<^verbatim>\<open>chooseOption\<close> returns the phase together with the lines it passed to
  \<^verbatim>\<open>console.warn\<close>.
\<close>

definition chooseOption ::
  "Collaborators \<Rightarrow> OptionValue \<Rightarrow> Phase \<Rightarrow> PlayerPosition \<Rightarrow> PhaseOrGameOver \<times> string list" where
  "chooseOption C option' phase currentPlayer =
     (if \<not> isLegalOption C option' phase currentPlayer
         \<or> notOfArray (determineIfPhaseIsLegal phase)
      then (if \<not> isLegalOption C option' phase currentPlayer
            then (InPlay phase, [''Option is illegal''])
            else (let errorMessage = snd (determineIfPhaseIsLegal phase)
                  in (InPlay phase, [errorMessage])))
      else (case getPhase C option' phase currentPlayer of
              GameOver over \<Rightarrow> (GameOver over, [])
            | InPlay nextPhase \<Rightarrow>
                (let (isLegalPhase, errorMessage) = determineIfPhaseIsLegal nextPhase
                 in if isLegalPhase then (InPlay nextPhase, [])
                    else (InPlay phase, [errorMessage]))))"

section \<open>Seat arithmetic, dealing and the game initialiser\<close>

fun getNextPosition :: "PlayerPosition \<Rightarrow> PlayerPosition" where
  "getNextPosition P1 = P2"
| "getNextPosition P2 = P3"
| "getNextPosition P3 = P4"
| "getNextPosition P4 = P1"

fun getPositionOfPartner :: "PlayerPosition \<Rightarrow> PlayerPosition" where
  "getPositionOfPartner P1 = P3"
| "getPositionOfPartner P2 = P4"
| "getPositionOfPartner P3 = P1"
| "getPositionOfPartner P4 = P2"

text \<open>
  The seats as the specification numbers them, 1 to 4 around the table; the seat after
  seat \<open>n\<close> is seat \<open>n mod 4 + 1\<close>.
\<close>

fun seatNumber :: "PlayerPosition \<Rightarrow> nat" where
  "seatNumber P1 = 1"
| "seatNumber P2 = 2"
| "seatNumber P3 = 3"
| "seatNumber P4 = 4"

text \<open>
  \<^verbatim>\<open>Math.random()\<close> is a parameter, a number \<open>random\<close> with \<open>0 \<le> random < 1\<close>. The
  product with \<open>max - min + 1 = 4\<close> is exact in binary floating point, so the real
  number computes what the source does.
\<close>

definition randomNumberBothInclusive :: "real \<Rightarrow> real \<Rightarrow> real \<Rightarrow> int" where
  "randomNumberBothInclusive min' max' random =
     (let min'' = \<lceil>min'\<rceil>; max'' = \<lfloor>max'\<rfloor>
      in \<lfloor>random * of_int (max'' - min'' + 1)\<rfloor> + min'')"

text \<open>An index outside the array reads \<^verbatim>\<open>undefined\<close>: \<open>None\<close>.\<close>

definition randomPlayerPosition :: "real \<Rightarrow> PlayerPosition option" where
  "randomPlayerPosition random =
     (let playerPositions = [P1, P2, P3, P4];
          i = randomNumberBothInclusive 0 3 random
      in if 0 \<le> i \<and> nat i < length playerPositions then Some (playerPositions ! nat i)
         else None)"

text \<open>
  \<^verbatim>\<open>shuffle(getAllCards())\<close> is the parameter \<open>allCardsShuffled\<close>. The source reads its
  indices 0 to 23; on a shorter array a read is \<^verbatim>\<open>undefined\<close>, which is no card, and
  the result is \<open>None\<close>.
\<close>

definition shuffleAndDealFourHands :: "Card list \<Rightarrow> Card list list option" where
  "shuffleAndDealFourHands allCardsShuffled =
     (if length allCardsShuffled < 24 then None
      else Some
        [[allCardsShuffled ! 0, allCardsShuffled ! 1, allCardsShuffled ! 2,
          allCardsShuffled ! 3, allCardsShuffled ! 4, allCardsShuffled ! 5],
         [allCardsShuffled ! 6, allCardsShuffled ! 7, allCardsShuffled ! 8,
          allCardsShuffled ! 9, allCardsShuffled ! 10, allCardsShuffled ! 11],
         [allCardsShuffled ! 12, allCardsShuffled ! 13, allCardsShuffled ! 14,
          allCardsShuffled ! 15, allCardsShuffled ! 16, allCardsShuffled ! 17],
         [allCardsShuffled ! 18, allCardsShuffled ! 19, allCardsShuffled ! 20,
          allCardsShuffled ! 21, allCardsShuffled ! 22, allCardsShuffled ! 23]])"

fun getIndex :: "PlayerPosition \<Rightarrow> nat" where
  "getIndex P1 = 0"
| "getIndex P2 = 1"
| "getIndex P3 = 2"
| "getIndex P4 = 3"

definition getHandSliceViaPosition :: "PlayerPosition \<Rightarrow> Card list list \<Rightarrow> Card list" where
  "getHandSliceViaPosition position' fourShuffledHands = fourShuffledHands ! getIndex position'"

text \<open>
  \<^verbatim>\<open>players.filter((player) => player.position === position)[0]\<close>: \<open>None\<close> is the
  \<^verbatim>\<open>undefined\<close> read from an empty array, when no lobby player sits at the seat.
\<close>

definition getPlayerInPosition :: "LobbyPlayer list \<Rightarrow> PlayerPosition \<Rightarrow> LobbyPlayer option" where
  "getPlayerInPosition lobby position' =
     (case filter (\<lambda>player. position player = position') lobby of
        [] \<Rightarrow> None
      | player # _ \<Rightarrow> Some player)"

text \<open>
  \<^verbatim>\<open>dealPlayer\<close> spreads the lobby player and adds the hand. Spreading \<^verbatim>\<open>undefined\<close>
  gives an object without name and position, which is no \<^verbatim>\<open>Player\<close>: \<open>None\<close>.
\<close>

definition dealPlayer :: "LobbyPlayer list \<Rightarrow> Card list list \<Rightarrow> PlayerPosition \<Rightarrow> Player option" where
  "dealPlayer lobby fourShuffledHands position' =
     (case getPlayerInPosition lobby position' of
        None \<Rightarrow> None
      | Some player \<Rightarrow>
          Some \<lparr>name = name player, position = position player,
                hand = getHandSliceViaPosition position' fourShuffledHands\<rparr>)"

text \<open>
  \<^verbatim>\<open>startGame\<close> returns the phase (\<open>Inr\<close>) or, when the legality checker rejects it,
  the checker's result (\<open>Inl\<close>). The outer \<open>None\<close> is a call that builds a value the
  types of \<^verbatim>\<open>definitions.ts\<close> do not hold: a deck of fewer than 24 cards, or a lobby
  that leaves a seat empty. For such a lobby the source goes on with the players that
  have no position, and returns what the checker says of them; that run is not part of
  this model.
\<close>

definition startGame ::
  "LobbyPlayer list \<Rightarrow> real \<Rightarrow> Card list \<Rightarrow> ((bool \<times> string) + Phase) option" where
  "startGame lobby random allCardsShuffled =
     (case (randomPlayerPosition random, shuffleAndDealFourHands allCardsShuffled) of
        (Some dealer', Some fourShuffledHands) \<Rightarrow>
          (case (dealPlayer lobby fourShuffledHands P1, dealPlayer lobby fourShuffledHands P3,
                 dealPlayer lobby fourShuffledHands P2, dealPlayer lobby fourShuffledHands P4) of
             (Some player1, Some player3, Some player2, Some player4) \<Rightarrow>
               (let phase = Bidding [\<lparr>players = [player1, player3], points = 0\<rparr>,
                                     \<lparr>players = [player2, player4], points = 0\<rparr>]
                                    dealer' (getNextPosition dealer') [];
                    result = determineIfPhaseIsLegal phase
                in Some (if fst result then Inr phase else Inl result))
           | _ \<Rightarrow> None)
      | _ \<Rightarrow> None)"

section \<open>A sample game\<close>

text \<open>
  Four lobby players and the unshuffled deck: North (seat 1) holds the Clubs, East (seat
  2) the Diamonds, South (seat 3) the Hearts and West (seat 4) the Spades.
\<close>

definition exampleLobby :: "LobbyPlayer list" where
  "exampleLobby = [\<lparr>name = ''North'', position = P1\<rparr>, \<lparr>name = ''East'', position = P2\<rparr>,
                   \<lparr>name = ''South'', position = P3\<rparr>, \<lparr>name = ''West'', position = P4\<rparr>]"

definition examplePlayer :: "string \<Rightarrow> PlayerPosition \<Rightarrow> CardSuit \<Rightarrow> CardRank list \<Rightarrow> Player" where
  "examplePlayer name' position' suit' ranks =
     \<lparr>name = name', position = position',
      hand = map (\<lambda>rank'. \<lparr>rank = rank', suit = suit'\<rparr>) ranks\<rparr>"

definition exampleTeams :: "CardRank list \<Rightarrow> Team list" where
  "exampleTeams ranks =
     [\<lparr>players = [examplePlayer ''North'' P1 Clubs ranks, examplePlayer ''South'' P3 Hearts ranks],
       points = 0\<rparr>,
      \<lparr>players = [examplePlayer ''East'' P2 Diamonds ranks, examplePlayer ''West'' P4 Spades ranks],
       points = 0\<rparr>]"

definition exampleBidding :: Phase where
  "exampleBidding = Bidding (exampleTeams [Nine, Ten, Jack, Queen, King, Ace]) P1 P2 []"

definition examplePickingTrump :: Phase where
  "examplePickingTrump =
     PickingTrump (exampleTeams [Nine, Ten, Jack, Queen, King, Ace]) P1
       \<lparr>playerPosition = P2, choice = Bid3\<rparr>"

text \<open>The first trick is about to start: every card is still in a hand.\<close>

definition exampleTrickTaking :: Phase where
  "exampleTrickTaking =
     TrickTaking (exampleTeams [Nine, Ten, Jack, Queen, King, Ace]) P1 (Suit Clubs)
       \<lparr>playerPosition = P2, choice = Bid3\<rparr> P2 [] [] None"

definition exampleNines :: "UpCard list" where
  "exampleNines =
     [\<lparr>owner = P2, card' = \<lparr>rank = Nine, suit = Diamonds\<rparr>\<rparr>,
      \<lparr>owner = P3, card' = \<lparr>rank = Nine, suit = Hearts\<rparr>\<rparr>,
      \<lparr>owner = P4, card' = \<lparr>rank = Nine, suit = Spades\<rparr>\<rparr>,
      \<lparr>owner = P1, card' = \<lparr>rank = Nine, suit = Clubs\<rparr>\<rparr>]"

text \<open>
  The four nines have been played and are still in the current trick; the hands hold
  the other twenty cards.
\<close>

definition exampleFullTrick :: Phase where
  "exampleFullTrick =
     TrickTaking (exampleTeams [Ten, Jack, Queen, King, Ace]) P1 (Suit Clubs)
       \<lparr>playerPosition = P2, choice = Bid3\<rparr> P2 exampleNines [] None"

text \<open>The four nines are in the current trick and also still in the hands.\<close>

definition exampleFullTrickFullHands :: Phase where
  "exampleFullTrickFullHands =
     TrickTaking (exampleTeams [Nine, Ten, Jack, Queen, King, Ace]) P1 (Suit Clubs)
       \<lparr>playerPosition = P2, choice = Bid3\<rparr> P2 exampleNines [] None"

text \<open>West sits out and is the seat to act.\<close>

definition exampleSittingOut :: Phase where
  "exampleSittingOut =
     TrickTaking (exampleTeams [Nine, Ten, Jack, Queen, King, Ace]) P1 (Suit Clubs)
       \<lparr>playerPosition = P2, choice = GoingAlone\<rparr> P4 [] [] (Some P4)"

text \<open>
  Stand-ins for the per-phase routines: bidding offers Pass and 3 and records a pass,
  picking trump offers Clubs and answers with a phase that has lost its teams, the card
  phases offer the nine of Clubs, and playing it ends the game.
\<close>

definition exampleCollaborators :: Collaborators where
  "exampleCollaborators =
     \<lparr>getOptionsForBiddingPhase = (\<lambda>phase currentPlayer. [Str ''Pass'', Str ''3'']),
      getOptionsForTrumpPickingPhase = (\<lambda>phase currentPlayer. [Str ''Clubs'']),
      getOptionsForTrickTakingPhase =
        (\<lambda>phase currentPlayer. [cardValue \<lparr>rank = Nine, suit = Clubs\<rparr>]),
      getOptionsForPartnersBestCardPickingPhase =
        (\<lambda>phase currentPlayer. [cardValue \<lparr>rank = Nine, suit = Clubs\<rparr>]),
      chooseOptionForBiddingPhase =
        (\<lambda>option' phase currentPlayer.
           InPlay (Bidding (teams phase) (dealer phase) (getNextPosition (bidPosition phase))
                     (bids phase @ [\<lparr>playerPosition = currentPlayer, choice = Pass\<rparr>]))),
      chooseOptionForPickingTrumpPhase =
        (\<lambda>option' phase. InPlay (PickingTrump [] (dealer phase) (winningBid phase))),
      chooseOptionForPickingPartnersBestCardPhase = (\<lambda>option' phase currentPlayer. InPlay phase),
      chooseOptionForTrickTakingPhase =
        (\<lambda>option' phase currentPlayer.
           GameOver \<lparr>winners = teams phase ! 0, losers = teams phase ! 1\<rparr>)\<rparr>"

text \<open>
  The same stand-ins, but the trick-taking routine offers the nine of Clubs twice, once
  with each order of its two properties.
\<close>

definition exampleCollaboratorsBothOrders :: Collaborators where
  "exampleCollaboratorsBothOrders =
     exampleCollaborators\<lparr>getOptionsForTrickTakingPhase :=
       (\<lambda>phase currentPlayer. [Obj [(''rank'', ''9''), (''suit'', ''Clubs'')],
                                 Obj [(''suit'', ''Clubs''), (''rank'', ''9'')]])\<rparr>"

section \<open>Auxiliary facts\<close>

subsection \<open>\<^verbatim>\<open>JSON.stringify\<close> is injective\<close>

lemma hexDigit_inj: "m < 16 \<Longrightarrow> n < 16 \<Longrightarrow> hexDigit m = hexDigit n \<Longrightarrow> m = n"
proof -
  assume a: "m < 16" "n < 16" "hexDigit m = hexDigit n"
  have d: "distinct ''0123456789abcdef''" by simp
  have l: "length ''0123456789abcdef'' = 16" by simp
  from a show ?thesis
    unfolding hexDigit_def using nth_eq_iff_index_eq[OF d, of m n] l by simp
qed

lemma escapeJSONChar_cases:
  "(escapeJSONChar c = [c] \<and> c \<noteq> CHR 0x5C \<and> c \<noteq> CHR 0x22)
   \<or> (\<exists>x. escapeJSONChar c = [CHR 0x5C, x] \<and> x \<noteq> CHR ''u'')
   \<or> (escapeJSONChar c = [CHR 0x5C, CHR ''u'', CHR ''0'', CHR ''0'',
            hexDigit (of_char c div 16), hexDigit (of_char c mod 16)] \<and> (of_char c :: nat) < 32)"
  by (simp add: escapeJSONChar_def)

lemma escapeJSONChar_short_inj:
  "escapeJSONChar c = [CHR 0x5C, x] \<Longrightarrow> escapeJSONChar d = [CHR 0x5C, x] \<Longrightarrow> c = d"
  by (auto simp add: escapeJSONChar_def split: if_splits)

lemma of_char_small_inj:
  assumes "(of_char c :: nat) div 16 = of_char d div 16" "(of_char c :: nat) mod 16 = of_char d mod 16"
  shows "c = d"
proof -
  have "(of_char c :: nat) = of_char d"
    using assms by (metis div_mult_mod_eq)
  then show ?thesis by simp
qed

lemma escapeJSONChar_long_inj:
  assumes "(of_char c :: nat) < 32" "(of_char d :: nat) < 32"
    "hexDigit (of_char c div 16) = hexDigit (of_char d div 16)"
    "hexDigit (of_char c mod 16) = hexDigit (of_char d mod 16)"
  shows "c = d"
proof -
  have "(of_char c :: nat) div 16 < 16" "(of_char d :: nat) div 16 < 16"
    using assms(1,2) by simp_all
  then have 1: "(of_char c :: nat) div 16 = of_char d div 16"
    using assms(3) hexDigit_inj by blast
  have "(of_char c :: nat) mod 16 < 16" "(of_char d :: nat) mod 16 < 16" by simp_all
  then have 2: "(of_char c :: nat) mod 16 = of_char d mod 16"
    using assms(4) hexDigit_inj by blast
  from 1 2 show ?thesis by (rule of_char_small_inj)
qed

lemma escapeJSONChar_prefix_free:
  assumes "escapeJSONChar c @ r = escapeJSONChar d @ r'"
  shows "c = d \<and> r = r'"
proof -
  consider (plain) "escapeJSONChar c = [c]" "c \<noteq> CHR 0x5C"
    | (short) x where "escapeJSONChar c = [CHR 0x5C, x]" "x \<noteq> CHR ''u''"
    | (long) "escapeJSONChar c = [CHR 0x5C, CHR ''u'', CHR ''0'', CHR ''0'',
            hexDigit (of_char c div 16), hexDigit (of_char c mod 16)]" "(of_char c :: nat) < 32"
    using escapeJSONChar_cases[of c] by blast
  then have "c = d"
  proof cases
    case plain
    with assms escapeJSONChar_cases[of d] show ?thesis by auto
  next
    case (short x)
    with assms escapeJSONChar_cases[of d] have "escapeJSONChar d = [CHR 0x5C, x]" by auto
    with short show ?thesis by (blast intro: escapeJSONChar_short_inj)
  next
    case long
    with assms escapeJSONChar_cases[of d]
    have "escapeJSONChar d = [CHR 0x5C, CHR ''u'', CHR ''0'', CHR ''0'',
            hexDigit (of_char d div 16), hexDigit (of_char d mod 16)] \<and> (of_char d :: nat) < 32"
      by auto
    with long assms show ?thesis by (auto intro: escapeJSONChar_long_inj)
  qed
  with assms show ?thesis by simp
qed

lemma escapeJSONChar_not_quote: "escapeJSONChar c @ r \<noteq> CHR 0x22 # r'"
  using escapeJSONChar_cases[of c] by auto

lemma escaped_delimited:
  "concat (map escapeJSONChar s) @ CHR 0x22 # r = concat (map escapeJSONChar s') @ CHR 0x22 # r'
   \<Longrightarrow> s = s' \<and> r = r'"
proof (induction s arbitrary: s')
  case Nil
  then show ?case
    by (cases s') (simp_all add: escapeJSONChar_not_quote[symmetric])
next
  case (Cons c s)
  show ?case
  proof (cases s')
    case Nil
    with Cons.prems show ?thesis by (simp add: escapeJSONChar_not_quote)
  next
    case (Cons d t)
    with Cons.prems have "c = d \<and>
      concat (map escapeJSONChar s) @ CHR 0x22 # r = concat (map escapeJSONChar t) @ CHR 0x22 # r'"
      using escapeJSONChar_prefix_free[of c _ d] by simp
    with Cons.IH[of t] Cons show ?thesis by simp
  qed
qed

lemma quoteJSONString_delimited:
  "quoteJSONString s @ r = quoteJSONString s' @ r' \<Longrightarrow> s = s' \<and> r = r'"
  using escaped_delimited[of s r s' r'] by (simp add: quoteJSONString_def)

lemma quoteJSONString_inj: "quoteJSONString s = quoteJSONString s' \<Longrightarrow> s = s'"
  using quoteJSONString_delimited[of s "[]" s' "[]"] by simp

lemma quoteJSONString_head: "\<exists>r. quoteJSONString s = CHR 0x22 # r"
  by (simp add: quoteJSONString_def)

lemma member_delimited:
  assumes "(quoteJSONString k @ '':'' @ quoteJSONString v) @ r
         = (quoteJSONString k' @ '':'' @ quoteJSONString v') @ r'"
  shows "k = k' \<and> v = v' \<and> r = r'"
proof -
  from assms have "quoteJSONString k @ ('':'' @ quoteJSONString v @ r)
         = quoteJSONString k' @ ('':'' @ quoteJSONString v' @ r')" by simp
  then have 1: "k = k'" and "'':'' @ quoteJSONString v @ r = '':'' @ quoteJSONString v' @ r'"
    using quoteJSONString_delimited by blast+
  then have "quoteJSONString v @ r = quoteJSONString v' @ r'" by simp
  then have "v = v' \<and> r = r'" by (rule quoteJSONString_delimited)
  with 1 show ?thesis by simp
qed

lemma jsonMember_delimited:
  "jsonMember x @ r = jsonMember y @ r' \<Longrightarrow> x = y \<and> r = r'"
  using member_delimited[of "fst x" "snd x" r "fst y" "snd y" r']
  by (cases x; cases y; simp add: jsonMember_def)

lemma jsonMember_head: "\<exists>r. jsonMember x = CHR 0x22 # r"
  using quoteJSONString_head[of "fst x"] by (cases x) (auto simp: jsonMember_def)

lemma join_Cons:
  "joinWithComma (x # xs) = x @ (case xs of [] \<Rightarrow> [] | _ \<Rightarrow> '','' @ joinWithComma xs)"
  by (cases xs) simp_all

lemma members_delimited:
  "joinWithComma (map jsonMember xs) @ ''}'' = joinWithComma (map jsonMember ys) @ ''}''
   \<Longrightarrow> xs = ys"
proof (induction xs arbitrary: ys)
  case Nil
  show ?case
  proof (cases ys)
    case (Cons y ys')
    with Nil jsonMember_head[of y] show ?thesis by (auto simp: join_Cons)
  qed simp
next
  case (Cons x xs)
  show ?case
  proof (cases ys)
    case Nil
    with Cons.prems jsonMember_head[of x] show ?thesis by (auto simp: join_Cons)
  next
    case (Cons y ys')
    with Cons.prems have eq: "jsonMember x @ ((case map jsonMember xs of [] \<Rightarrow> [] | _ \<Rightarrow> '','' @ joinWithComma (map jsonMember xs)) @ ''}'')
        = jsonMember y @ ((case map jsonMember ys' of [] \<Rightarrow> [] | _ \<Rightarrow> '','' @ joinWithComma (map jsonMember ys')) @ ''}'')"
      by (simp add: join_Cons)
    then have xy: "x = y" and rest: "(case map jsonMember xs of [] \<Rightarrow> [] | _ \<Rightarrow> '','' @ joinWithComma (map jsonMember xs)) @ ''}''
        = (case map jsonMember ys' of [] \<Rightarrow> [] | _ \<Rightarrow> '','' @ joinWithComma (map jsonMember ys')) @ ''}''"
      using jsonMember_delimited by blast+
    have "xs = ys'"
    proof (cases xs)
      case Nil
      with rest show ?thesis by (cases ys') simp_all
    next
      case (Cons a as)
      with rest obtain b bs where "ys' = b # bs" by (cases ys') auto
      with rest Cons have "joinWithComma (map jsonMember xs) @ ''}'' = joinWithComma (map jsonMember ys') @ ''}''"
        by simp
      then show ?thesis by (rule Cons.IH)
    qed
    with xy Cons show ?thesis by simp
  qed
qed

lemma JSON_stringify_inj: "JSON_stringify a = JSON_stringify b \<Longrightarrow> a = b"
proof (cases a; cases b)
  fix s s' assume "a = Str s" "b = Str s'" "JSON_stringify a = JSON_stringify b"
  then show "a = b" using quoteJSONString_inj by simp
next
  fix s ps assume "a = Str s" "b = Obj ps" "JSON_stringify a = JSON_stringify b"
  then show "a = b" using quoteJSONString_head[of s] by auto
next
  fix s ps assume "a = Obj ps" "b = Str s" "JSON_stringify a = JSON_stringify b"
  then show "a = b" using quoteJSONString_head[of s] by auto
next
  fix ps qs assume "a = Obj ps" "b = Obj qs" "JSON_stringify a = JSON_stringify b"
  then show "a = b" using members_delimited[of ps qs] by simp
qed

subsection \<open>The sample phases\<close>

lemmas legality_defs = determineIfPhaseIsLegal_def players'_def cardsInHandsOfPlayers_def
  doesEachFinishedTrickHaveOnlyOneCardFromEachOwner_def cardsInPlay_def cards_def
  hasTwentyFourCards_def isEveryCardUnique_def

lemmas example_defs = exampleTeams_def examplePlayer_def exampleNines_def

lemma exampleBidding_legal: "determineIfPhaseIsLegal exampleBidding = (True, ''No issue detected'')"
  by (simp add: exampleBidding_def legality_defs example_defs enumerate_eq_zip upt_rec)

lemma examplePickingTrump_legal: "determineIfPhaseIsLegal examplePickingTrump = (True, ''No issue detected'')"
  by (simp add: examplePickingTrump_def legality_defs example_defs enumerate_eq_zip upt_rec)

lemma exampleTrickTaking_legal: "determineIfPhaseIsLegal exampleTrickTaking = (True, ''No issue detected'')"
  by (simp add: exampleTrickTaking_def legality_defs example_defs enumerate_eq_zip upt_rec)

lemma exampleFullTrick_illegal: "determineIfPhaseIsLegal exampleFullTrick = (False, ''The current trick cannot have 4 or more cards in it, if it did then it wouldn't be considered the current trick and should instead be one of the finished tricks.'')"
  by (simp add: exampleFullTrick_def legality_defs example_defs enumerate_eq_zip upt_rec)

lemma exampleFullTrickFullHands_illegal: "determineIfPhaseIsLegal exampleFullTrickFullHands = (False, ''Game does not have 24 cards in play.'')"
  by (simp add: exampleFullTrickFullHands_def legality_defs example_defs enumerate_eq_zip upt_rec)

lemma exampleSittingOut_illegal: "determineIfPhaseIsLegal exampleSittingOut = (False, ''The player sitting out shouldn't be able to play'')"
  by (simp add: exampleSittingOut_def legality_defs example_defs)

subsection \<open>Enumeration and dispatch\<close>

lemma isLegalOption_iff: "isLegalOption C option' phase currentPlayer = (option' \<in> set (getOptions C phase currentPlayer))"
  unfolding isLegalOption_def list_ex_iff using JSON_stringify_inj by blast

lemma getOptions_illegal: "\<not> fst (determineIfPhaseIsLegal phase) \<Longrightarrow> getOptions C phase currentPlayer = []"
  by (simp add: getOptions_def)

lemma example_getOptions:
  "getOptions exampleCollaborators exampleBidding p = [Str ''Pass'', Str ''3'']"
  "getOptions exampleCollaborators examplePickingTrump p = [Str ''Clubs'']"
  "getOptions exampleCollaborators exampleTrickTaking p = [cardValue \<lparr>rank = Nine, suit = Clubs\<rparr>]"
  "getOptions exampleCollaborators exampleFullTrick p = []"
    apply (simp add: getOptions_def exampleBidding_legal, simp add: exampleBidding_def exampleCollaborators_def)
   apply (simp add: getOptions_def examplePickingTrump_legal, simp add: examplePickingTrump_def exampleCollaborators_def)
   apply (simp add: getOptions_def exampleTrickTaking_legal, simp add: exampleTrickTaking_def exampleCollaborators_def)
  apply (simp add: getOptions_def exampleFullTrick_illegal)
  done

lemma example_both_orders:
  "getOptions exampleCollaboratorsBothOrders exampleTrickTaking p
   = [Obj [(''rank'', ''9''), (''suit'', ''Clubs'')], Obj [(''suit'', ''Clubs''), (''rank'', ''9'')]]"
  by (simp add: getOptions_def exampleTrickTaking_legal,
      simp add: exampleTrickTaking_def exampleCollaboratorsBothOrders_def)

lemma example_getPhase:
  "getPhase exampleCollaborators (cardValue \<lparr>rank = Nine, suit = Clubs\<rparr>) exampleTrickTaking P2
     = GameOver \<lparr>winners = exampleTeams [Nine, Ten, Jack, Queen, King, Ace] ! 0,
                 losers = exampleTeams [Nine, Ten, Jack, Queen, King, Ace] ! 1\<rparr>"
  "getPhase exampleCollaborators (Str ''Pass'') exampleBidding P2
     = InPlay (Bidding (exampleTeams [Nine, Ten, Jack, Queen, King, Ace]) P1 P3
                 [\<lparr>playerPosition = P2, choice = Pass\<rparr>])"
  "getPhase exampleCollaborators (Str ''Clubs'') examplePickingTrump P2
     = InPlay (PickingTrump [] P1 \<lparr>playerPosition = P2, choice = Bid3\<rparr>)"
  by (simp_all add: getPhase_def exampleTrickTaking_def exampleBidding_def examplePickingTrump_def
      exampleCollaborators_def isCard_def cardValue_def isBidChoice_def isTrump_def)

lemma example_candidates:
  "fst (determineIfPhaseIsLegal (Bidding (exampleTeams [Nine, Ten, Jack, Queen, King, Ace]) P1 P3
                 [\<lparr>playerPosition = P2, choice = Pass\<rparr>]))"
  "\<not> fst (determineIfPhaseIsLegal (PickingTrump [] P1 \<lparr>playerPosition = P2, choice = Bid3\<rparr>))"
  by (simp_all add: legality_defs example_defs enumerate_eq_zip upt_rec)

subsection \<open>Property order\<close>

lemma same_properties_same_order:
  assumes keys: "map fst xs = map fst ys" and d: "distinct (map fst ys)"
    and sub: "list_all (\<lambda>(key, v). map_of ys key = Some v) xs"
  shows "xs = ys"
proof (rule nth_equalityI)
  show len: "length xs = length ys" using keys by (metis length_map)
  fix i assume i: "i < length xs"
  obtain k v where kv: "xs ! i = (k, v)" by (cases "xs ! i")
  with sub i have "map_of ys k = Some v" by (auto simp: list_all_length)
  then have "(k, v) \<in> set ys" by (rule map_of_SomeD)
  then obtain j where j: "j < length ys" "ys ! j = (k, v)" by (auto simp: in_set_conv_nth)
  have "map fst ys ! i = k" using keys kv i by (metis fst_conv nth_map)
  moreover have "map fst ys ! j = k" using j by simp
  ultimately have "map fst ys ! i = map fst ys ! j" by simp
  moreover have "i < length (map fst ys)" "j < length (map fst ys)" using i j len by simp_all
  ultimately have "i = j" using d nth_eq_iff_index_eq by blast
  with j kv show "xs ! i = ys ! i" by simp
qed

lemma structurallyEqual_same_order:
  "structurallyEqual a b \<Longrightarrow> propertyNames a = propertyNames b
   \<Longrightarrow> distinct (propertyNames b) \<Longrightarrow> a = b"
  by (cases a; cases b) (auto intro: same_properties_same_order)

lemma structurallyEqual_refl: "distinct (propertyNames a) \<Longrightarrow> structurallyEqual a a"
  by (cases a) (auto simp: list_all_iff)

subsection \<open>Owners of a trick\<close>

lemma PlayerPosition_UNIV: "(UNIV :: PlayerPosition set) = {P1, P2, P3, P4}"
  using PlayerPosition.exhaust by auto

lemma at_most_four_owners: "length (remdups (xs :: PlayerPosition list)) \<le> 4"
proof -
  have "finite (UNIV :: PlayerPosition set)" by (simp add: PlayerPosition_UNIV)
  then have "card (set xs) \<le> card (UNIV :: PlayerPosition set)"
    by (rule card_mono) simp
  then show ?thesis by (simp add: length_remdups_card_conv PlayerPosition_UNIV)
qed

lemma five_cards_share_owner:
  assumes "phaseName phase = ''Trick-Taking''" "5 \<le> length (currentTrick phase)"
  shows "\<not> doesEachFinishedTrickHaveOnlyOneCardFromEachOwner phase"
  using assms at_most_four_owners[of "map owner (currentTrick phase)"]
  by (auto simp: doesEachFinishedTrickHaveOnlyOneCardFromEachOwner_def)

subsection \<open>Dealing\<close>

lemma Card_eq_iff: "((a :: Card) = b) = (rank a = rank b \<and> suit a = suit b)"
  by (cases a; cases b) simp

lemma list_all_enumerate:
  "list_all P (enumerate 0 xs) = (\<forall>i < length xs. P (i, xs ! i))"
  by (simp add: list_all_length nth_enumerate_eq)

lemma isEveryCardUnique_distinct: "isEveryCardUnique phase = distinct (cards phase)"
  unfolding isEveryCardUnique_def list_all_enumerate distinct_conv_nth
  by (auto simp: Card_eq_iff)

lemma randomPlayerPosition_seat:
  assumes "0 \<le> random" "random < 1"
  shows "\<exists>dealer'. randomPlayerPosition random = Some dealer'
            \<and> seatNumber dealer' = nat \<lfloor>random * 4\<rfloor> + 1"
proof -
  define i where "i = \<lfloor>random * 4\<rfloor>"
  have "0 \<le> i" using assms by (simp add: i_def)
  moreover have "i < 4" using assms by (simp add: i_def floor_less_iff)
  ultimately have "i = 0 \<or> i = 1 \<or> i = 2 \<or> i = 3" by arith
  moreover have "randomNumberBothInclusive 0 3 random = i"
    by (simp add: randomNumberBothInclusive_def i_def)
  ultimately show ?thesis
    unfolding i_def[symmetric] by (auto simp: randomPlayerPosition_def Let_def)
qed

lemma getNextPosition_seat: "seatNumber (getNextPosition seat) = seatNumber seat mod 4 + 1"
  by (cases seat) simp_all

lemma dealPlayer_seated:
  assumes "position' \<in> set (map position lobby)"
  shows "\<exists>name'. dealPlayer lobby hands position'
           = Some \<lparr>name = name', position = position', hand = hands ! getIndex position'\<rparr>"
proof -
  from assms have "filter (\<lambda>player. position player = position') lobby \<noteq> []"
    by (auto simp: filter_empty_conv)
  then obtain player rest where f: "filter (\<lambda>player. position player = position') lobby = player # rest"
    by (cases "filter (\<lambda>player. position player = position') lobby") auto
  then have "player \<in> set (filter (\<lambda>player. position player = position') lobby)" by simp
  then have "position player = position'" by simp
  with f show ?thesis
    by (simp add: dealPlayer_def getPlayerInPosition_def getHandSliceViaPosition_def)
qed

lemma getAllCards_distinct: "distinct getAllCards" "length getAllCards = 24"
  by (simp_all add: getAllCards_def)

lemma dealt_phase_legal:
  assumes d: "distinct s" and l: "length s = 24"
  shows "determineIfPhaseIsLegal
     (Bidding [\<lparr>players = [\<lparr>name = n1, position = P1, hand = [s ! 0, s ! 1, s ! 2, s ! 3, s ! 4, s ! 5]\<rparr>,
                            \<lparr>name = n3, position = P3, hand = [s ! 12, s ! 13, s ! 14, s ! 15, s ! 16, s ! 17]\<rparr>],
                points = 0\<rparr>,
               \<lparr>players = [\<lparr>name = n2, position = P2, hand = [s ! 6, s ! 7, s ! 8, s ! 9, s ! 10, s ! 11]\<rparr>,
                            \<lparr>name = n4, position = P4, hand = [s ! 18, s ! 19, s ! 20, s ! 21, s ! 22, s ! 23]\<rparr>],
                points = 0\<rparr>] dealer' bidder []) = (True, ''No issue detected'')"
proof -
  have nth: "\<And>i j. i < 24 \<Longrightarrow> j < 24 \<Longrightarrow> (s ! i = s ! j) = (i = j)"
    using d l by (simp add: nth_eq_iff_index_eq)
  show ?thesis
    by (simp add: determineIfPhaseIsLegal_def players'_def cardsInHandsOfPlayers_def
      doesEachFinishedTrickHaveOnlyOneCardFromEachOwner_def cardsInPlay_def cards_def
      hasTwentyFourCards_def isEveryCardUnique_distinct nth)
qed

lemma twenty_four_elements:
  assumes "length s = 24"
  shows "[s ! 0, s ! 1, s ! 2, s ! 3, s ! 4, s ! 5, s ! 6, s ! 7, s ! 8, s ! 9, s ! 10, s ! 11,
          s ! 12, s ! 13, s ! 14, s ! 15, s ! 16, s ! 17, s ! 18, s ! 19, s ! 20, s ! 21, s ! 22,
          s ! 23] = s"
proof -
  have "map ((!) s) [0..<24] = s" using assms map_nth[of s] by simp
  then show ?thesis by (simp add: upt_rec eval_nat_numeral)
qed

lemma startGame_example:
  "startGame exampleLobby 0 getAllCards = Some (Inr exampleBidding)"
  by (simp add: startGame_def randomPlayerPosition_def randomNumberBothInclusive_def
     shuffleAndDealFourHands_def getAllCards_def dealPlayer_def getPlayerInPosition_def
     exampleLobby_def getHandSliceViaPosition_def Let_def exampleBidding_legal[unfolded exampleBidding_def exampleTeams_def examplePlayer_def, simplified] exampleBidding_def exampleTeams_def examplePlayer_def)

lemma startGame_example_wrap:
  "startGame exampleLobby (3 / 4) getAllCards
     = Some (Inr (Bidding (exampleTeams [Nine, Ten, Jack, Queen, King, Ace]) P4 P1 []))"
  using exampleBidding_legal
  by (simp add: startGame_def randomPlayerPosition_def randomNumberBothInclusive_def
     shuffleAndDealFourHands_def getAllCards_def dealPlayer_def getPlayerInPosition_def
     exampleLobby_def getHandSliceViaPosition_def Let_def legality_defs
     exampleBidding_def exampleTeams_def examplePlayer_def)

section \<open>Properties of the bid hierarchy\<close>

text \<open>
  C10. \<open>getHigherBid\<close> always yields a value, also on equal arguments: the higher of
  a bid and itself is that bid, and the higher of any two bids is one of the two.
\<close>

theorem getHigherBid_total:
  "getHigherBid a a = Some a \<and> (getHigherBid a b = Some a \<or> getHigherBid a b = Some b)"
  by (cases a; cases b; simp add: getHigherBid_def bidHierarchy_def)

text \<open>
  C4. \<open>getHigherBids\<close> filters the hierarchy with \<open>isFirstBidGreaterThanSecond\<close>,
  which holds of a bid and itself, so the result is the descending list of the bids that
  are at least as high as the argument: it always contains the argument. With \<open>5\<close>
  outstanding the list still offers \<open>5\<close>.
\<close>

theorem getHigherBids_keeps_bid:
  "getHigherBids Bid5 = [GoingAlone, PartnersBestCard, Bid6, Bid5]
   \<and> bid \<in> set (getHigherBids bid)
   \<and> getHigherBids bid = filter (\<lambda>element. bidPriority bid \<le> bidPriority element) bidHierarchy"
  by (cases bid;
      simp add: getHigherBids_def isFirstBidGreaterThanSecond_def getHigherBid_def bidHierarchy_def)

section \<open>Properties of the trump ranking\<close>

text \<open>
  C3. For a real trump suit the five-card branch is guarded by
  \<open>leftBowerSuit = suit\<close>, where \<open>leftBowerSuit\<close> is the same-colour suit of
  \<open>suit\<close> itself, so the guard never holds: the bower-donor suit (Spades when Clubs
  is trump) is ranked with all six cards, its Jack included, and no suit is ever ranked
  with five cards.
\<close>

theorem ranked_donor_suit_keeps_jack:
  "getCardsOfSuitWhenTrumpOrderedByHierarchyDesc Spades (Suit Clubs) =
     [\<lparr>rank = Ace, suit = Spades\<rparr>, \<lparr>rank = King, suit = Spades\<rparr>,
      \<lparr>rank = Queen, suit = Spades\<rparr>, \<lparr>rank = Jack, suit = Spades\<rparr>,
      \<lparr>rank = Ten, suit = Spades\<rparr>, \<lparr>rank = Nine, suit = Spades\<rparr>]
   \<and> length (getCardsOfSuitWhenTrumpOrderedByHierarchyDesc suit' trump') \<noteq> 5"
  by (cases suit'; simp add: getCardsOfSuitWhenTrumpOrderedByHierarchyDesc_def Let_def)

text \<open>
  C9. With Clubs as trump the four ranked lists have lengths 7, 6, 6 and 6, 25 cards in
  all, and the Jack of Spades stands both in the list of Clubs (as left bower) and in
  the list of Spades: the lists are not pairwise disjoint. The same holds for every
  real trump suit and its same-colour suit.
\<close>

theorem ranked_lists_share_left_bower:
  "\<lparr>rank = Jack, suit = Spades\<rparr> \<in> set (getCardsOfSuitWhenTrumpOrderedByHierarchyDesc Clubs (Suit Clubs))
   \<and> \<lparr>rank = Jack, suit = Spades\<rparr> \<in> set (getCardsOfSuitWhenTrumpOrderedByHierarchyDesc Spades (Suit Clubs))
   \<and> map (\<lambda>s. length (getCardsOfSuitWhenTrumpOrderedByHierarchyDesc s (Suit Clubs)))
        [Clubs, Diamonds, Hearts, Spades] = [7, 6, 6, 6]
   \<and> \<lparr>rank = Jack, suit = getSameColorSuit t\<rparr>
        \<in> set (getCardsOfSuitWhenTrumpOrderedByHierarchyDesc t (Suit t))
          \<inter> set (getCardsOfSuitWhenTrumpOrderedByHierarchyDesc (getSameColorSuit t) (Suit t))"
  by (cases t; simp add: getCardsOfSuitWhenTrumpOrderedByHierarchyDesc_def)

section \<open>Properties of the option enumerator and the option applier\<close>

text \<open>
  C5. On a phase that the legality checker rejects, \<open>getOptions\<close> returns the empty
  sequence for every acting seat, whatever the per-phase routines would offer.
\<close>

theorem getOptions_illegal_phase_empty:
  "\<not> fst (determineIfPhaseIsLegal phase) \<Longrightarrow> getOptions C phase currentPlayer = []"
  by (simp add: getOptions_def)

theorem getOptions_illegal_phase_empty_witness:
  "\<not> fst (determineIfPhaseIsLegal exampleFullTrick)
   \<and> getOptionsForTrickTakingPhase exampleCollaborators exampleFullTrick P2
       = [cardValue \<lparr>rank = Nine, suit = Clubs\<rparr>]
   \<and> getOptions exampleCollaborators exampleFullTrick P2 = []"
  using getOptions_illegal_phase_empty[of exampleFullTrick exampleCollaborators P2]
  by (simp add: exampleFullTrick_illegal exampleCollaborators_def)

text \<open>
  C2. When the option is not among \<open>getOptions phase currentPlayer\<close>, or the input
  phase fails the legality checker, \<open>chooseOption\<close> returns the input phase as it is
  and warns that the option is illegal. (On an illegal phase no option is enumerated, so
  the first case covers the second.)
\<close>

theorem chooseOption_illegal_is_noop:
  "option' \<notin> set (getOptions C phase currentPlayer) \<or> \<not> fst (determineIfPhaseIsLegal phase)
   \<Longrightarrow> chooseOption C option' phase currentPlayer = (InPlay phase, [''Option is illegal''])"
proof -
  assume "option' \<notin> set (getOptions C phase currentPlayer) \<or> \<not> fst (determineIfPhaseIsLegal phase)"
  then have "option' \<notin> set (getOptions C phase currentPlayer)"
    using getOptions_illegal[of phase C currentPlayer] by auto
  then have "\<not> isLegalOption C option' phase currentPlayer"
    by (simp add: isLegalOption_iff)
  then show ?thesis by (simp add: chooseOption_def)
qed

theorem chooseOption_illegal_is_noop_witness:
  "Str ''6'' \<notin> set (getOptions exampleCollaborators exampleBidding P2)
   \<and> chooseOption exampleCollaborators (Str ''6'') exampleBidding P2
       = (InPlay exampleBidding, [''Option is illegal''])
   \<and> \<not> fst (determineIfPhaseIsLegal exampleFullTrick)
   \<and> chooseOption exampleCollaborators (cardValue \<lparr>rank = Nine, suit = Clubs\<rparr>) exampleFullTrick P2
       = (InPlay exampleFullTrick, [''Option is illegal''])"
  using chooseOption_illegal_is_noop[of "Str ''6''" exampleCollaborators exampleBidding P2]
    chooseOption_illegal_is_noop[of "cardValue \<lparr>rank = Nine, suit = Clubs\<rparr>" exampleCollaborators exampleFullTrick P2]
  by (simp add: example_getOptions exampleFullTrick_illegal)

text \<open>
  C1. After a legal option has been dispatched (\<open>getPhase\<close>): a Game Over candidate
  is returned as it is; a candidate phase that fails the legality checker is dropped and
  the input phase is returned; a candidate phase that passes is returned.
\<close>

theorem chooseOption_checks_candidate:
  assumes "isLegalOption C option' phase currentPlayer"
  shows "(getPhase C option' phase currentPlayer = GameOver over
            \<longrightarrow> fst (chooseOption C option' phase currentPlayer) = GameOver over)
       \<and> (getPhase C option' phase currentPlayer = InPlay candidate
            \<and> \<not> fst (determineIfPhaseIsLegal candidate)
            \<longrightarrow> fst (chooseOption C option' phase currentPlayer) = InPlay phase)
       \<and> (getPhase C option' phase currentPlayer = InPlay candidate
            \<and> fst (determineIfPhaseIsLegal candidate)
            \<longrightarrow> fst (chooseOption C option' phase currentPlayer) = InPlay candidate)"
  using assms by (simp add: chooseOption_def notOfArray_def split: prod.splits)

theorem chooseOption_checks_candidate_witness:
  "isLegalOption exampleCollaborators (cardValue \<lparr>rank = Nine, suit = Clubs\<rparr>) exampleTrickTaking P2
   \<and> fst (chooseOption exampleCollaborators (cardValue \<lparr>rank = Nine, suit = Clubs\<rparr>) exampleTrickTaking P2)
       = GameOver \<lparr>winners = exampleTeams [Nine, Ten, Jack, Queen, King, Ace] ! 0,
                   losers = exampleTeams [Nine, Ten, Jack, Queen, King, Ace] ! 1\<rparr>
   \<and> isLegalOption exampleCollaborators (Str ''Pass'') exampleBidding P2
   \<and> fst (chooseOption exampleCollaborators (Str ''Pass'') exampleBidding P2)
       = InPlay (Bidding (exampleTeams [Nine, Ten, Jack, Queen, King, Ace]) P1 P3
                   [\<lparr>playerPosition = P2, choice = Pass\<rparr>])
   \<and> isLegalOption exampleCollaborators (Str ''Clubs'') examplePickingTrump P2
   \<and> fst (chooseOption exampleCollaborators (Str ''Clubs'') examplePickingTrump P2)
       = InPlay examplePickingTrump"
proof -
  have 1: "isLegalOption exampleCollaborators (cardValue \<lparr>rank = Nine, suit = Clubs\<rparr>) exampleTrickTaking P2"
    and 2: "isLegalOption exampleCollaborators (Str ''Pass'') exampleBidding P2"
    and 3: "isLegalOption exampleCollaborators (Str ''Clubs'') examplePickingTrump P2"
    by (simp_all add: isLegalOption_def example_getOptions)
  show ?thesis
    using 1 2 3
      chooseOption_checks_candidate[OF 1,
        where over = "\<lparr>winners = exampleTeams [Nine, Ten, Jack, Queen, King, Ace] ! 0,
                       losers = exampleTeams [Nine, Ten, Jack, Queen, King, Ace] ! 1\<rparr>"]
      chooseOption_checks_candidate[OF 2,
        where candidate = "Bidding (exampleTeams [Nine, Ten, Jack, Queen, King, Ace]) P1 P3
                             [\<lparr>playerPosition = P2, choice = Pass\<rparr>]"]
      chooseOption_checks_candidate[OF 3,
        where candidate = "PickingTrump [] P1 \<lparr>playerPosition = P2, choice = Bid3\<rparr>"]
    by (simp add: example_getPhase example_candidates)
qed

text \<open>
  C6. \<open>isLegalOption\<close> compares the \<^verbatim>\<open>JSON.stringify\<close> texts, which are equal
  exactly when the two run-time values are the same: the same string, or objects with
  the same properties and values in the same order of enumeration. So legality is
  membership in \<open>getOptions phase currentPlayer\<close> under that equality: an option is
  accepted exactly when some enumerated option is structurally equal to it and lists
  its properties in the same order (the names of the properties of an object are
  distinct).
\<close>

theorem isLegalOption_same_representation:
  "isLegalOption C option' phase currentPlayer
     = (option' \<in> set (getOptions C phase currentPlayer))
   \<and> (distinct (propertyNames option') \<longrightarrow>
        isLegalOption C option' phase currentPlayer
          = (\<exists>o' \<in> set (getOptions C phase currentPlayer).
               structurallyEqual o' option' \<and> propertyNames o' = propertyNames option'))"
  using structurallyEqual_same_order[of _ option'] structurallyEqual_refl[of option']
  by (auto simp: isLegalOption_iff)

theorem isLegalOption_same_representation_witness:
  "distinct (propertyNames (Obj [(''rank'', ''9''), (''suit'', ''Clubs'')]))
   \<and> cardValue \<lparr>rank = Nine, suit = Clubs\<rparr> \<in> set (getOptions exampleCollaborators exampleTrickTaking P2)
   \<and> structurallyEqual (cardValue \<lparr>rank = Nine, suit = Clubs\<rparr>)
        (Obj [(''rank'', ''9''), (''suit'', ''Clubs'')])
   \<and> isLegalOption exampleCollaborators (Obj [(''rank'', ''9''), (''suit'', ''Clubs'')])
        exampleTrickTaking P2
   \<and> \<not> isLegalOption exampleCollaborators (Str ''Pass'') exampleTrickTaking P2
   \<and> \<not> isLegalOption exampleCollaborators (Obj [(''suit'', ''Clubs''), (''rank'', ''9'')])
        exampleTrickTaking P2
   \<and> isLegalOption exampleCollaboratorsBothOrders (Obj [(''suit'', ''Clubs''), (''rank'', ''9'')])
        exampleTrickTaking P2"
  using isLegalOption_same_representation[of exampleCollaborators
      "Obj [(''rank'', ''9''), (''suit'', ''Clubs'')]" exampleTrickTaking P2]
    isLegalOption_same_representation[of exampleCollaborators "Str ''Pass''" exampleTrickTaking P2]
    isLegalOption_same_representation[of exampleCollaborators
      "Obj [(''suit'', ''Clubs''), (''rank'', ''9'')]" exampleTrickTaking P2]
    isLegalOption_same_representation[of exampleCollaboratorsBothOrders
      "Obj [(''suit'', ''Clubs''), (''rank'', ''9'')]" exampleTrickTaking P2]
  by (simp add: example_getOptions example_both_orders cardValue_def)

text \<open>
  The order of the properties matters: where only the nine of Clubs with \<^verbatim>\<open>rank\<close>
  first is enumerated, the same card with \<^verbatim>\<open>suit\<close> first is structurally equal to it
  and is rejected.
\<close>

theorem isLegalOption_property_order_counterexample:
  "cardValue \<lparr>rank = Nine, suit = Clubs\<rparr> \<in> set (getOptions exampleCollaborators exampleTrickTaking P2)
   \<and> structurallyEqual (cardValue \<lparr>rank = Nine, suit = Clubs\<rparr>)
        (Obj [(''suit'', ''Clubs''), (''rank'', ''9'')])
   \<and> \<not> isLegalOption exampleCollaborators (Obj [(''suit'', ''Clubs''), (''rank'', ''9'')])
          exampleTrickTaking P2
   \<and> JSON_stringify (cardValue \<lparr>rank = Nine, suit = Clubs\<rparr>)
       = [CHR ''{'', CHR 0x22] @ ''rank'' @ [CHR 0x22, CHR '':'', CHR 0x22] @ ''9''
         @ [CHR 0x22, CHR '','', CHR 0x22] @ ''suit'' @ [CHR 0x22, CHR '':'', CHR 0x22] @ ''Clubs''
         @ [CHR 0x22, CHR ''}'']
   \<and> JSON_stringify (Obj [(''suit'', ''Clubs''), (''rank'', ''9'')])
       = [CHR ''{'', CHR 0x22] @ ''suit'' @ [CHR 0x22, CHR '':'', CHR 0x22] @ ''Clubs''
         @ [CHR 0x22, CHR '','', CHR 0x22] @ ''rank'' @ [CHR 0x22, CHR '':'', CHR 0x22] @ ''9''
         @ [CHR 0x22, CHR ''}'']
   \<and> chooseOption exampleCollaborators (Obj [(''suit'', ''Clubs''), (''rank'', ''9'')])
        exampleTrickTaking P2 = (InPlay exampleTrickTaking, [''Option is illegal''])"
  by (simp add: example_getOptions isLegalOption_def chooseOption_def cardValue_def
      jsonMember_def quoteJSONString_def escapeJSONChar_def)

section \<open>Properties of the legality checker\<close>

text \<open>
  C7. A Trick-Taking phase whose current trick holds four or more UpCards is always
  rejected. The checks run in a fixed order and the first failure gives the message, so
  the message is the one about the size of the current trick exactly when every earlier
  check passes; with five or more UpCards two of them share an owner and an earlier
  check fails. A Trick-Taking phase whose \<open>playerSittingOut\<close> is the seat to act is
  rejected by the first check.
\<close>

theorem determineIfPhaseIsLegal_rejects_full_trick:
  assumes "phaseName phase = ''Trick-Taking''"
  shows "(4 \<le> length (currentTrick phase) \<longrightarrow> \<not> fst (determineIfPhaseIsLegal phase))
   \<and> (4 \<le> length (currentTrick phase) \<longrightarrow>
        (determineIfPhaseIsLegal phase = (False, ''The current trick cannot have 4 or more cards in it, if it did then it wouldn't be considered the current trick and should instead be one of the finished tricks.'')
         \<longleftrightarrow> playerSittingOut phase \<noteq> Some (cardPosition phase)
             \<and> length (teams phase) = 2
             \<and> doesEachFinishedTrickHaveOnlyOneCardFromEachOwner phase
             \<and> hasTwentyFourCards phase
             \<and> isEveryCardUnique phase
             \<and> length (remdups (map position (players' phase))) = 4
             \<and> list_all (\<lambda>team. (P1 \<in> set (map position (players team))
                                      \<and> P3 \<in> set (map position (players team)))
                                    \<or> (P2 \<in> set (map position (players team))
                                      \<and> P4 \<in> set (map position (players team))))
                  (teams phase)))
   \<and> (5 \<le> length (currentTrick phase) \<longrightarrow>
        snd (determineIfPhaseIsLegal phase) \<noteq> ''The current trick cannot have 4 or more cards in it, if it did then it wouldn't be considered the current trick and should instead be one of the finished tricks.'')
   \<and> (playerSittingOut phase = Some (cardPosition phase) \<longrightarrow>
        determineIfPhaseIsLegal phase = (False, ''The player sitting out shouldn't be able to play''))"
proof (intro conjI impI)
  assume "4 \<le> length (currentTrick phase)"
  with assms show "\<not> fst (determineIfPhaseIsLegal phase)"
    by (simp add: determineIfPhaseIsLegal_def)
next
  assume "4 \<le> length (currentTrick phase)"
  with assms show "(determineIfPhaseIsLegal phase = (False, ''The current trick cannot have 4 or more cards in it, if it did then it wouldn't be considered the current trick and should instead be one of the finished tricks.'')
         \<longleftrightarrow> playerSittingOut phase \<noteq> Some (cardPosition phase)
             \<and> length (teams phase) = 2
             \<and> doesEachFinishedTrickHaveOnlyOneCardFromEachOwner phase
             \<and> hasTwentyFourCards phase
             \<and> isEveryCardUnique phase
             \<and> length (remdups (map position (players' phase))) = 4
             \<and> list_all (\<lambda>team. (P1 \<in> set (map position (players team))
                                      \<and> P3 \<in> set (map position (players team)))
                                    \<or> (P2 \<in> set (map position (players team))
                                      \<and> P4 \<in> set (map position (players team))))
                  (teams phase))"
    by (simp add: determineIfPhaseIsLegal_def Let_def)
next
  assume "5 \<le> length (currentTrick phase)"
  with assms have "\<not> doesEachFinishedTrickHaveOnlyOneCardFromEachOwner phase"
    by (rule five_cards_share_owner)
  with assms show "snd (determineIfPhaseIsLegal phase) \<noteq> ''The current trick cannot have 4 or more cards in it, if it did then it wouldn't be considered the current trick and should instead be one of the finished tricks.''"
    by (simp add: determineIfPhaseIsLegal_def)
next
  assume "playerSittingOut phase = Some (cardPosition phase)"
  with assms show "determineIfPhaseIsLegal phase = (False, ''The player sitting out shouldn't be able to play'')"
    by (simp add: determineIfPhaseIsLegal_def)
qed

theorem determineIfPhaseIsLegal_rejects_full_trick_witness:
  "phaseName exampleFullTrick = ''Trick-Taking''
   \<and> length (currentTrick exampleFullTrick) = 4
   \<and> determineIfPhaseIsLegal exampleFullTrick = (False, ''The current trick cannot have 4 or more cards in it, if it did then it wouldn't be considered the current trick and should instead be one of the finished tricks.'')
   \<and> phaseName exampleSittingOut = ''Trick-Taking''
   \<and> playerSittingOut exampleSittingOut = Some (cardPosition exampleSittingOut)
   \<and> determineIfPhaseIsLegal exampleSittingOut = (False, ''The player sitting out shouldn't be able to play'')"
proof -
  have 1: "phaseName exampleFullTrick = ''Trick-Taking''"
    and 2: "phaseName exampleSittingOut = ''Trick-Taking''"
    by (simp_all add: exampleFullTrick_def exampleSittingOut_def)
  have 3: "playerSittingOut exampleFullTrick \<noteq> Some (cardPosition exampleFullTrick)
             \<and> length (teams exampleFullTrick) = 2
             \<and> doesEachFinishedTrickHaveOnlyOneCardFromEachOwner exampleFullTrick
             \<and> hasTwentyFourCards exampleFullTrick
             \<and> isEveryCardUnique exampleFullTrick
             \<and> length (remdups (map position (players' exampleFullTrick))) = 4
             \<and> list_all (\<lambda>team. (P1 \<in> set (map position (players team))
                                      \<and> P3 \<in> set (map position (players team)))
                                    \<or> (P2 \<in> set (map position (players team))
                                      \<and> P4 \<in> set (map position (players team))))
                  (teams exampleFullTrick)"
    by (simp add: exampleFullTrick_def legality_defs example_defs enumerate_eq_zip upt_rec)
  have 4: "length (currentTrick exampleFullTrick) = 4"
    "playerSittingOut exampleSittingOut = Some (cardPosition exampleSittingOut)"
    by (simp_all add: exampleFullTrick_def exampleSittingOut_def exampleNines_def)
  show ?thesis
    using determineIfPhaseIsLegal_rejects_full_trick[OF 1] determineIfPhaseIsLegal_rejects_full_trick[OF 2] 1 2 3 4
    by simp
qed

text \<open>
  Four UpCards in the current trick that are still counted in the hands: the phase is
  rejected for holding 28 cards, not for the size of the trick.
\<close>

theorem determineIfPhaseIsLegal_full_trick_counterexample:
  "phaseName exampleFullTrickFullHands = ''Trick-Taking''
   \<and> length (currentTrick exampleFullTrickFullHands) = 4
   \<and> determineIfPhaseIsLegal exampleFullTrickFullHands = (False, ''Game does not have 24 cards in play.'')
   \<and> snd (determineIfPhaseIsLegal exampleFullTrickFullHands) \<noteq> ''The current trick cannot have 4 or more cards in it, if it did then it wouldn't be considered the current trick and should instead be one of the finished tricks.''"
  by (simp add: exampleFullTrickFullHands_illegal) (simp add: exampleFullTrickFullHands_def exampleNines_def)

section \<open>Properties of the game initialiser\<close>

text \<open>
  C8. For four lobby players on the seats 1 to 4, any value of \<^verbatim>\<open>Math.random()\<close> and
  any shuffle that permutes the deck, \<open>startGame\<close> returns a Bidding phase: the dealer
  is one of the four seats (seat \<open>\<lfloor>4 \<cdot> random\<rfloor> + 1\<close>), the first bidder is the seat
  after the dealer in the ring (seat 1 after seat 4), no bid is made, the teams are the
  seats 1 and 3 and the seats 2 and 4 with no points, and every player holds six cards,
  the hands being the shuffled deck cut in seat order.
\<close>

theorem startGame_deals_bidding_phase:
  assumes "0 \<le> random" "random < 1"
    and "length lobby = 4" "set (map position lobby) = {P1, P2, P3, P4}"
    and "mset allCardsShuffled = mset getAllCards"
  shows "\<exists>dealer' bidder player1 player2 player3 player4.
     startGame lobby random allCardsShuffled
       = Some (Inr (Bidding [\<lparr>players = [player1, player3], points = 0\<rparr>,
                             \<lparr>players = [player2, player4], points = 0\<rparr>]
                      dealer' bidder []))
     \<and> dealer' \<in> {P1, P2, P3, P4}
     \<and> seatNumber dealer' = nat \<lfloor>random * 4\<rfloor> + 1
     \<and> seatNumber bidder = seatNumber dealer' mod 4 + 1
     \<and> bidder = getNextPosition dealer'
     \<and> map position [player1, player2, player3, player4] = [P1, P2, P3, P4]
     \<and> map (\<lambda>player. length (hand player)) [player1, player2, player3, player4] = [6, 6, 6, 6]
     \<and> hand player1 @ hand player2 @ hand player3 @ hand player4 = allCardsShuffled"
proof -
  let ?s = allCardsShuffled
  from assms(5) have d: "distinct ?s"
    using getAllCards_distinct(1) mset_eq_imp_distinct_iff by blast
  from assms(5) have l: "length ?s = 24"
    using getAllCards_distinct(2) mset_eq_length by fastforce
  obtain dealer' where r: "randomPlayerPosition random = Some dealer'"
    and seat: "seatNumber dealer' = nat \<lfloor>random * 4\<rfloor> + 1"
    using randomPlayerPosition_seat[OF assms(1,2)] by blast
  define hands where "hands =
        [[?s ! 0, ?s ! 1, ?s ! 2, ?s ! 3, ?s ! 4, ?s ! 5],
         [?s ! 6, ?s ! 7, ?s ! 8, ?s ! 9, ?s ! 10, ?s ! 11],
         [?s ! 12, ?s ! 13, ?s ! 14, ?s ! 15, ?s ! 16, ?s ! 17],
         [?s ! 18, ?s ! 19, ?s ! 20, ?s ! 21, ?s ! 22, ?s ! 23]]"
  have h: "shuffleAndDealFourHands ?s = Some hands"
    using l by (simp add: shuffleAndDealFourHands_def hands_def)
  obtain n1 where p1: "dealPlayer lobby hands P1 = Some \<lparr>name = n1, position = P1, hand = hands ! getIndex P1\<rparr>"
    using dealPlayer_seated[of P1 lobby hands] assms(4) by auto
  obtain n2 where p2: "dealPlayer lobby hands P2 = Some \<lparr>name = n2, position = P2, hand = hands ! getIndex P2\<rparr>"
    using dealPlayer_seated[of P2 lobby hands] assms(4) by auto
  obtain n3 where p3: "dealPlayer lobby hands P3 = Some \<lparr>name = n3, position = P3, hand = hands ! getIndex P3\<rparr>"
    using dealPlayer_seated[of P3 lobby hands] assms(4) by auto
  obtain n4 where p4: "dealPlayer lobby hands P4 = Some \<lparr>name = n4, position = P4, hand = hands ! getIndex P4\<rparr>"
    using dealPlayer_seated[of P4 lobby hands] assms(4) by auto
  have legal: "determineIfPhaseIsLegal
     (Bidding [\<lparr>players = [\<lparr>name = n1, position = P1, hand = hands ! getIndex P1\<rparr>,
                            \<lparr>name = n3, position = P3, hand = hands ! getIndex P3\<rparr>],
                points = 0\<rparr>,
               \<lparr>players = [\<lparr>name = n2, position = P2, hand = hands ! getIndex P2\<rparr>,
                            \<lparr>name = n4, position = P4, hand = hands ! getIndex P4\<rparr>],
                points = 0\<rparr>] dealer' (getNextPosition dealer') []) = (True, ''No issue detected'')"
    using dealt_phase_legal[OF d l, of n1 n3 n2 n4 dealer' "getNextPosition dealer'"]
    by (simp add: hands_def)
  have start: "startGame lobby random ?s
     = Some (Inr (Bidding [\<lparr>players = [\<lparr>name = n1, position = P1, hand = hands ! getIndex P1\<rparr>,
                            \<lparr>name = n3, position = P3, hand = hands ! getIndex P3\<rparr>],
                points = 0\<rparr>,
               \<lparr>players = [\<lparr>name = n2, position = P2, hand = hands ! getIndex P2\<rparr>,
                            \<lparr>name = n4, position = P4, hand = hands ! getIndex P4\<rparr>],
                points = 0\<rparr>] dealer' (getNextPosition dealer') []))"
    using legal by (simp add: startGame_def r h p1 p2 p3 p4 Let_def)
  have dealer: "dealer' \<in> {P1, P2, P3, P4}" by (cases dealer') simp_all
  have bidder: "seatNumber (getNextPosition dealer') = seatNumber dealer' mod 4 + 1"
    by (rule getNextPosition_seat)
  have whole: "hands ! getIndex P1 @ hands ! getIndex P2 @ hands ! getIndex P3 @ hands ! getIndex P4 = ?s"
    using twenty_four_elements[OF l] by (simp add: hands_def)
  have six: "map (\<lambda>player. length (hand player))
        [\<lparr>name = n1, position = P1, hand = hands ! getIndex P1\<rparr>,
         \<lparr>name = n2, position = P2, hand = hands ! getIndex P2\<rparr>,
         \<lparr>name = n3, position = P3, hand = hands ! getIndex P3\<rparr>,
         \<lparr>name = n4, position = P4, hand = hands ! getIndex P4\<rparr>] = [6, 6, 6, 6]"
    by (simp add: hands_def)
  show ?thesis
    apply (rule exI[of _ dealer'])
    apply (rule exI[of _ "getNextPosition dealer'"])
    apply (rule exI[of _ "\<lparr>name = n1, position = P1, hand = hands ! getIndex P1\<rparr>"])
    apply (rule exI[of _ "\<lparr>name = n2, position = P2, hand = hands ! getIndex P2\<rparr>"])
    apply (rule exI[of _ "\<lparr>name = n3, position = P3, hand = hands ! getIndex P3\<rparr>"])
    apply (rule exI[of _ "\<lparr>name = n4, position = P4, hand = hands ! getIndex P4\<rparr>"])
    using start dealer seat bidder whole six apply simp
    done
qed

theorem startGame_deals_bidding_phase_witness:
  "(0::real) \<le> 3 / 4 \<and> (3 / 4 :: real) < 1
   \<and> length exampleLobby = 4 \<and> set (map position exampleLobby) = {P1, P2, P3, P4}
   \<and> mset getAllCards = mset getAllCards
   \<and> startGame exampleLobby 0 getAllCards = Some (Inr exampleBidding)
   \<and> exampleBidding = Bidding (exampleTeams [Nine, Ten, Jack, Queen, King, Ace]) P1 P2 []
   \<and> startGame exampleLobby (3 / 4) getAllCards
       = Some (Inr (Bidding (exampleTeams [Nine, Ten, Jack, Queen, King, Ace]) P4 P1 []))
   \<and> (\<exists>dealer' bidder player1 player2 player3 player4.
     startGame exampleLobby (3 / 4) getAllCards
       = Some (Inr (Bidding [\<lparr>players = [player1, player3], points = 0\<rparr>,
                             \<lparr>players = [player2, player4], points = 0\<rparr>]
                      dealer' bidder []))
     \<and> dealer' \<in> {P1, P2, P3, P4}
     \<and> seatNumber dealer' = nat \<lfloor>(3 / 4 :: real) * 4\<rfloor> + 1
     \<and> seatNumber bidder = seatNumber dealer' mod 4 + 1
     \<and> bidder = getNextPosition dealer'
     \<and> map position [player1, player2, player3, player4] = [P1, P2, P3, P4]
     \<and> map (\<lambda>player. length (hand player)) [player1, player2, player3, player4] = [6, 6, 6, 6]
     \<and> hand player1 @ hand player2 @ hand player3 @ hand player4 = getAllCards)"
proof -
  have 1: "(0::real) \<le> 3 / 4" and 2: "(3 / 4 :: real) < 1" by simp_all
  have 3: "length exampleLobby = 4" and 4: "set (map position exampleLobby) = {P1, P2, P3, P4}"
    by (simp_all add: exampleLobby_def)
  have 5: "mset getAllCards = mset getAllCards" by simp
  have 6: "exampleBidding = Bidding (exampleTeams [Nine, Ten, Jack, Queen, King, Ace]) P1 P2 []"
    by (simp add: exampleBidding_def)
  show ?thesis
    using 1 2 3 4 6 startGame_example startGame_example_wrap
      startGame_deals_bidding_phase[OF 1 2 3 4 5] by blast
qed

end
